theory Spec2Isabelle
  imports Complex_Main "HOL-Library.Signed_Division"
begin

section \<open>The Airthings exporter: inventory cache and scrape\<close>

text \<open>
  The development embeds \<^verbatim>\<open>main.go\<close> and \<^verbatim>\<open>api.go\<close>: the device inventory
  cache (\<^verbatim>\<open>DeviceConfig\<close>), its refresh (\<^verbatim>\<open>discover\<close>, \<^verbatim>\<open>updateRequired\<close>) and the
  emission of metrics (\<^verbatim>\<open>retrieveMetrics\<close>, \<^verbatim>\<open>Collect\<close>).

  The exporter talks to three collaborators that are not part of its sources: the clock
  (\<^verbatim>\<open>time\<close>), the OAuth2 token source and the HTTP client. What they answer during one
  scrape is an input of the model (the record \<open>World\<close> below); what the exporter does
  to them (requests, log lines, metrics sent on the channel) is an output.
\<close>

subsection \<open>Time\<close>

text \<open>
  A \<^verbatim>\<open>time.Time\<close> is the number of nanoseconds since Go's zero time (its wall and its
  monotonic reading are not told apart), and a
  \<^verbatim>\<open>time.Duration\<close> is a signed 64-bit count of nanoseconds. \<^verbatim>\<open>Time.Sub\<close> saturates at
  the ends of that range. \<^verbatim>\<open>Duration.Minutes\<close> divides with Go's truncating \<^verbatim>\<open>/\<close> and
  \<^verbatim>\<open>%\<close> (\<open>sdiv\<close> and \<open>smod\<close>) and adds the two parts as \<^verbatim>\<open>float64\<close>.

  The sum is taken here in the reals. For the one comparison the program makes
  (\<^verbatim>\<open>Minutes() > 30\<close>) the rounding of \<^verbatim>\<open>float64\<close> changes nothing: the whole minutes are
  below \<open>2 ^ 53\<close> and exact; a fraction of at least one nanosecond is about \<open>1.6e-11\<close>
  minutes, far above the spacing \<open>2 ^ - 48\<close> of \<^verbatim>\<open>float64\<close> next to 30; so the rounded sum is
  above 30 exactly when the exact one is.
\<close>

type_synonym Time = int
type_synonym Duration = int

definition Nanosecond :: Duration where
  "Nanosecond = 1"

definition Second :: Duration where
  "Second = 1000000000 * Nanosecond"

definition Minute :: Duration where
  "Minute = 60 * Second"

definition minDuration :: Duration where
  "minDuration = - (2 ^ 63)"

definition maxDuration :: Duration where
  "maxDuration = 2 ^ 63 - 1"

definition IsZero :: "Time \<Rightarrow> bool" where
  "IsZero t \<longleftrightarrow> t = 0"

definition Sub :: "Time \<Rightarrow> Time \<Rightarrow> Duration" where
  "Sub t u =
     (if minDuration \<le> t - u \<and> t - u \<le> maxDuration then t - u
      else if t < u then minDuration
      else maxDuration)"

text \<open>\<^verbatim>\<open>time.Since(t)\<close> is \<^verbatim>\<open>time.Now().Sub(t)\<close>; the clock reading is the first argument.\<close>

definition Since :: "Time \<Rightarrow> Time \<Rightarrow> Duration" where
  "Since now t = Sub now t"

definition Minutes :: "Duration \<Rightarrow> real" where
  "Minutes d =
     (let min = d sdiv Minute;
          nsec = d smod Minute
      in real_of_int min + real_of_int nsec / (60 * 1000000000))"

subsection \<open>The API's data (api.go)\<close>

type_synonym AirthingsMetric = string

definition Battery :: AirthingsMetric where "Battery = ''battery''"
definition CO2 :: AirthingsMetric where "CO2 = ''co2''"
definition Humidity :: AirthingsMetric where "Humidity = ''humidity''"
definition Pm1 :: AirthingsMetric where "Pm1 = ''pm1''"
definition Pm25 :: AirthingsMetric where "Pm25 = ''pm25''"
definition Pressure :: AirthingsMetric where "Pressure = ''pressure''"
definition Radon :: AirthingsMetric where "Radon = ''radonShortTermAvg''"
definition Temperature :: AirthingsMetric where "Temperature = ''temp''"
definition VOC :: AirthingsMetric where "VOC = ''voc''"
definition DeviceType :: AirthingsMetric where "DeviceType = ''relayDeviceType''"

text \<open>
  A value of Go's \<^verbatim>\<open>any\<close> as \<^verbatim>\<open>encoding/json\<close> decodes it: a JSON number becomes a
  \<^verbatim>\<open>float64\<close>, and the type assertion \<^verbatim>\<open>data.(float64)\<close> succeeds on numbers only. The
  number is carried to the metric unchanged (no arithmetic), so it is a real here.
\<close>

datatype anyval =
    Float64 real
  | String string
  | Bool bool
  | Null
  | Array "anyval list"
  | Object "(string \<times> anyval) list"

text \<open>
  \<^verbatim>\<open>Data\<close> is a Go map. The only thing the program does with it is to range over it, in
  an order that Go leaves open: the list holds the entries in the order in which the loop
  visits them.
\<close>

record AirthingsMetricsResult =
  Data :: "(AirthingsMetric \<times> anyval) list"

record AirthingsSegment =
  Segment_Id :: string
  Segment_Name :: string
  Segment_Active :: bool

record AirthingsLocation =
  Location_Id :: string
  Location_Name :: string

record AirthingDevice =
  Device_Id :: string
  Device_DeviceType :: string
  Sensors :: "string list"
  Segment :: AirthingsSegment
  Location :: AirthingsLocation

record AirthingsDevicesResult =
  Devices :: "AirthingDevice list"

subsection \<open>The exporter's state (main.go)\<close>

record Device =
  device_id :: string
  segment :: string
  location :: string

record DeviceConfig =
  lastUpdate :: Time
  devices :: "Device list"

definition updateRequired :: "Time \<Rightarrow> DeviceConfig \<Rightarrow> bool" where
  "updateRequired now dc \<longleftrightarrow>
     IsZero (lastUpdate dc) \<or> Minutes (Since now (lastUpdate dc)) > 30"


subsection \<open>The metric registry (main.go)\<close>

text \<open>
  From the Prometheus client library the program uses a descriptor (\<^verbatim>\<open>prometheus.Desc\<close>:
  the exported name, the help text and the names of the variable labels), the value types,
  \<^verbatim>\<open>BuildFQName\<close> and the constructor of a constant metric.
\<close>

datatype ValueType = CounterValue | GaugeValue | UntypedValue

record Desc =
  fqName :: string
  helpText :: string
  variableLabels :: "string list"
  constLabels :: "(string \<times> string) list"

record metricInfo =
  Desc :: Desc
  Type :: ValueType

text \<open>A metric as it is sent on the channel: descriptor, value type, value, label values.\<close>

record constMetric =
  desc :: Desc
  valType :: ValueType
  val :: real
  labelValues :: "string list"

definition namespace :: string where
  "namespace = ''airthings''"

definition labelNames :: "string list" where
  "labelNames = [''device'', ''segment'', ''location'']"

definition BuildFQName :: "string \<Rightarrow> string \<Rightarrow> string \<Rightarrow> string" where
  "BuildFQName ns subsystem name =
     (if name = [] then []
      else if ns \<noteq> [] \<and> subsystem \<noteq> [] then ns @ ''_'' @ subsystem @ ''_'' @ name
      else if ns \<noteq> [] then ns @ ''_'' @ name
      else if subsystem \<noteq> [] then subsystem @ ''_'' @ name
      else name)"

definition NewDesc ::
  "string \<Rightarrow> string \<Rightarrow> string list \<Rightarrow> (string \<times> string) list \<Rightarrow> Desc" where
  "NewDesc fq h vl cl = \<lparr>fqName = fq, helpText = h, variableLabels = vl, constLabels = cl\<rparr>"

definition newMetric ::
  "string \<Rightarrow> string \<Rightarrow> ValueType \<Rightarrow> (string \<times> string) list \<Rightarrow> metricInfo" where
  "newMetric metricName docString t cl =
     \<lparr>Desc = NewDesc (BuildFQName namespace ''cloud'' metricName) docString labelNames cl,
      Type = t\<rparr>"

type_synonym metrics = "AirthingsMetric \<rightharpoonup> metricInfo"

definition airthingMetrics :: metrics where
  "airthingMetrics = map_of
     [(Battery, newMetric ''battery'' ''Battery charge capacity'' GaugeValue []),
      (CO2, newMetric ''co2'' ''CO2 levels'' GaugeValue []),
      (Humidity, newMetric ''humidity'' ''Humidity'' GaugeValue []),
      (Pm1, newMetric ''pm1'' ''Extremely fine particles, less than 1 microns'' GaugeValue []),
      (Pm25, newMetric ''pm25'' ''Fine particles, less than 2.5 microns'' GaugeValue []),
      (Pressure, newMetric ''air_pressure'' ''Pressure'' GaugeValue []),
      (Radon, newMetric ''radon'' ''Radon, short term average'' GaugeValue []),
      (Temperature, newMetric ''temperature'' ''Temperature'' GaugeValue []),
      (VOC, newMetric ''voc'' ''Volatile organic compounds'' GaugeValue [])]"

text \<open>
  \<^verbatim>\<open>prometheus.MustNewConstMetric\<close> panics when the constructor reports an error. The
  error that depends on this program is the number of label values, which has to be the
  number of variable labels of the descriptor; \<open>Inl\<close> is the panic. (The library also
  rejects a descriptor with an invalid name and a label value that is not UTF-8: the
  names are the constants above, and the label values are strings decoded by
  \<^verbatim>\<open>encoding/json\<close>, which yields UTF-8 only.)
\<close>

type_synonym err = string

definition MustNewConstMetric ::
  "Desc \<Rightarrow> ValueType \<Rightarrow> real \<Rightarrow> string list \<Rightarrow> err + constMetric" where
  "MustNewConstMetric d t v lvs =
     (if length lvs \<noteq> length (variableLabels d) then Inl ''inconsistent label cardinality''
      else Inr \<lparr>desc = d, valType = t, val = v, labelValues = lvs\<rparr>)"

subsection \<open>The exporter and its collaborators\<close>

record Exporter =
  metrics :: metrics
  deviceConfig :: DeviceConfig

text \<open>The exporter that \<^verbatim>\<open>main\<close> builds: the registry and an empty \<^verbatim>\<open>DeviceConfig\<close>.\<close>

definition newExporter :: Exporter where
  "newExporter = \<lparr>metrics = airthingMetrics, deviceConfig = \<lparr>lastUpdate = 0, devices = []\<rparr>\<rparr>"

record Token =
  AccessToken :: string

text \<open>
  What the HTTP client hands back when it reports no error: the response, with its status
  code, and the value registered with \<^verbatim>\<open>SetResult\<close> (\<^verbatim>\<open>resp.Result()\<close>). The program
  reads the result only.
\<close>

record DevicesResponse =
  Devices_StatusCode :: nat
  Devices_Result :: AirthingsDevicesResult

record MetricsResponse =
  Metrics_StatusCode :: nat
  Metrics_Result :: AirthingsMetricsResult

text \<open>
  The answers of the collaborators during one scrape: the clock read by \<^verbatim>\<open>time.Since\<close>
  and by the deferred \<^verbatim>\<open>time.Now\<close> of \<^verbatim>\<open>discover\<close>; the token source asked by
  \<^verbatim>\<open>discover\<close> and by \<^verbatim>\<open>retrieveMetrics\<close>; the answer to the request for the devices;
  and the answer to the request for the samples made in the \<open>i\<close>-th round of the loop over
  the devices. \<open>Inl\<close> is a non-nil \<^verbatim>\<open>err\<close>.
\<close>

record World =
  sinceNow :: Time
  deferNow :: Time
  discoverToken :: "err + Token"
  devicesGet :: "err + DevicesResponse"
  retrieveToken :: "err + Token"
  samplesGet :: "nat \<Rightarrow> err + MetricsResponse"

text \<open>What the exporter does to the outside, in order.\<close>

datatype Level = level_Error | level_Info | level_Debug

datatype event =
    TokenCall
  | Get string string "(string \<times> string) list"
  | Log Level "(string \<times> string) list"

definition devicesURL :: string where
  "devicesURL = ''https://ext-api.airthings.com/v1/devices''"

definition samplesURL :: string where
  "samplesURL = ''https://ext-api.airthings.com/v1/devices/{serialNumber}/latest-samples''"

subsection \<open>discover\<close>

text \<open>The loop of \<^verbatim>\<open>discover\<close> over the devices of the result: a log line and a device each.\<close>

fun discoverLoop :: "AirthingDevice list \<Rightarrow> Device list \<Rightarrow> Device list \<times> event list" where
  "discoverLoop [] devs = (devs, [])"
| "discoverLoop (r # rs) devs =
     (let ev = Log level_Info
            [(''msg'', ''updating device''), (''device'', Device_Id r),
             (''segment'', Segment_Name (Segment r)), (''location'', Location_Name (Location r))];
          (devs', evs) = discoverLoop rs
            (devs @ [\<lparr>device_id = Device_Id r, segment = Segment_Name (Segment r),
                      location = Location_Name (Location r)\<rparr>])
      in (devs', ev # evs))"

text \<open>
  The body of the \<^verbatim>\<open>if\<close>, up to the deferred function: the exporter on return, and the
  events.
\<close>

definition refresh :: "World \<Rightarrow> Exporter \<Rightarrow> Exporter \<times> event list" where
  "refresh w e =
     (case discoverToken w of
        Inl err \<Rightarrow>
          (e, [TokenCall,
               Log level_Error
                 [(''msg'', ''failed to get access token, will try again later''), (''err'', err)]])
      | Inr token \<Rightarrow>
          (case devicesGet w of
             Inl err \<Rightarrow>
               (e, [TokenCall, Get (AccessToken token) devicesURL [],
                    Log level_Error
                      [(''msg'', ''failed to get devices, will try again later''), (''err'', err)]])
           | Inr resp \<Rightarrow>
               (let result = Devices_Result resp;
                    (devs, evs) = discoverLoop (Devices result) []
                in (e\<lparr>deviceConfig := (deviceConfig e)\<lparr>devices := devs\<rparr>\<rparr>,
                    [TokenCall, Get (AccessToken token) devicesURL []] @ evs))))"

text \<open>
  \<^verbatim>\<open>discover\<close>: when an update is required, the body runs and the deferred function then
  stores the clock in \<^verbatim>\<open>lastUpdate\<close>, on every return.
\<close>

definition discover :: "World \<Rightarrow> Exporter \<Rightarrow> Exporter \<times> event list" where
  "discover w e =
     (if updateRequired (sinceNow w) (deviceConfig e) then
        (let (e', evs) = refresh w e
         in (e'\<lparr>deviceConfig := (deviceConfig e')\<lparr>lastUpdate := deferNow w\<rparr>\<rparr>, evs))
      else (e, []))"

subsection \<open>retrieveMetrics and Collect\<close>

text \<open>
  The inner loop of \<^verbatim>\<open>retrieveMetrics\<close>, over the entries of \<^verbatim>\<open>result.Data\<close>: the metrics
  sent on the channel, and the panic of \<^verbatim>\<open>MustNewConstMetric\<close> if there was one (the
  metrics sent before it stay sent).
\<close>

fun emitReadings ::
  "metrics \<Rightarrow> Device \<Rightarrow> (AirthingsMetric \<times> anyval) list \<Rightarrow> constMetric list \<times> err option" where
  "emitReadings ms d [] = ([], None)"
| "emitReadings ms d ((metric, data) # rest) =
     (case ms metric of
        None \<Rightarrow> emitReadings ms d rest
      | Some atm \<Rightarrow>
          (case data of
             Float64 v \<Rightarrow>
               (case MustNewConstMetric (Desc atm) (Type atm) v [device_id d, segment d, location d] of
                  Inl p \<Rightarrow> ([], Some p)
                | Inr m \<Rightarrow> (let (ch, p) = emitReadings ms d rest in (m # ch, p)))
           | _ \<Rightarrow> emitReadings ms d rest))"

text \<open>
  The loop over the cached devices; \<open>i\<close> counts the rounds. A failed request is logged and
  the loop goes on with the next device.
\<close>

fun devicesLoop ::
  "World \<Rightarrow> metrics \<Rightarrow> Token \<Rightarrow> nat \<Rightarrow> Device list \<Rightarrow>
   constMetric list \<times> event list \<times> err option" where
  "devicesLoop w ms token i [] = ([], [], None)"
| "devicesLoop w ms token i (d # ds) =
     (let get = Get (AccessToken token) samplesURL [(''serialNumber'', device_id d)]
      in case samplesGet w i of
           Inl err \<Rightarrow>
             (let (ch, evs, p) = devicesLoop w ms token (Suc i) ds
              in (ch,
                  get # Log level_Error
                    [(''msg'', ''failed to get metrics for device''), (''device'', device_id d),
                     (''err'', err)] # evs,
                  p))
         | Inr resp \<Rightarrow>
             (let result = Metrics_Result resp;
                  dbg = Log level_Debug
                    [(''msg'', ''airthings metrices received''), (''device'', device_id d)];
                  (ch1, p1) = emitReadings ms d (Data result)
              in case p1 of
                   Some p \<Rightarrow> (ch1, [get, dbg], Some p)
                 | None \<Rightarrow>
                     (let (ch, evs, p) = devicesLoop w ms token (Suc i) ds
                      in (ch1 @ ch, get # dbg # evs, p))))"

definition retrieveMetrics ::
  "World \<Rightarrow> Exporter \<Rightarrow> constMetric list \<times> event list \<times> err option" where
  "retrieveMetrics w e =
     (case retrieveToken w of
        Inl err \<Rightarrow>
          ([], [TokenCall,
                Log level_Error
                  [(''msg'', ''failed to get access token, will try again later''), (''err'', err)]],
           None)
      | Inr token \<Rightarrow>
          (let (ch, evs, p) = devicesLoop w (metrics e) token 0 (devices (deviceConfig e))
           in (ch, TokenCall # evs, p)))"

text \<open>
  \<^verbatim>\<open>Collect\<close>, one scrape: the exporter afterwards, the metrics sent on the channel, the
  events of \<^verbatim>\<open>discover\<close> followed by those of \<^verbatim>\<open>retrieveMetrics\<close>, and the panic if there
  was one.
  (The mutex is taken on entry and released on every exit; within one scrape it has no
  effect.)
\<close>

definition Collect_scrape ::
  "World \<Rightarrow> Exporter \<Rightarrow> Exporter \<times> constMetric list \<times> event list \<times> err option" where
  "Collect_scrape w e =
     (let (e1, evs1) = discover w e;
          (ch, evs2, p) = retrieveMetrics w e1
      in (e1, ch, evs1 @ evs2, p))"

subsection \<open>The record that the specification asks for\<close>

text \<open>
  The specification's words for one reading of a device (section 4.4, step 4, and the
  registry of section 4.3): a reading whose key is one of the nine kinds and whose value is
  a number gives one record, with the descriptor registered for the key, the value and the
  labels device id, segment, location; any other reading gives none. This definition is
  written from the specification, to be compared with \<open>emitReadings\<close>.
\<close>

definition registryKeys :: "AirthingsMetric set" where
  "registryKeys =
     {''battery'', ''co2'', ''humidity'', ''pm1'', ''pm25'', ''pressure'',
      ''radonShortTermAvg'', ''temp'', ''voc''}"

fun spec_records :: "Device \<Rightarrow> AirthingsMetric \<times> anyval \<Rightarrow> constMetric list" where
  "spec_records d (k, Float64 v) =
     (if k \<in> registryKeys
      then [\<lparr>desc = Desc (the (airthingMetrics k)), valType = GaugeValue, val = v,
             labelValues = [device_id d, segment d, location d]\<rparr>]
      else [])"
| "spec_records d (k, _) = []"

subsection \<open>Example answers of the collaborators\<close>

definition exampleToken :: Token where
  "exampleToken = \<lparr>AccessToken = ''token-1''\<rparr>"

definition exampleDevice :: AirthingDevice where
  "exampleDevice =
     \<lparr>Device_Id = ''d1'', Device_DeviceType = ''WAVE_PLUS'', Sensors = [''co2''],
      Segment = \<lparr>Segment_Id = ''s1'', Segment_Name = ''Office'', Segment_Active = True\<rparr>,
      Location = \<lparr>Location_Id = ''l1'', Location_Name = ''HQ''\<rparr>\<rparr>"

definition exampleSamples :: MetricsResponse where
  "exampleSamples =
     \<lparr>Metrics_StatusCode = 200,
      Metrics_Result =
        \<lparr>Data = [(''co2'', Float64 450), (''relayDeviceType'', String ''wave_plus'')]\<rparr>\<rparr>"

text \<open>Every request is answered; the inventory holds the one example device.\<close>

definition worldOk :: World where
  "worldOk =
     \<lparr>sinceNow = 5000 * Minute, deferNow = 5000 * Minute + Second,
      discoverToken = Inr exampleToken,
      devicesGet = Inr \<lparr>Devices_StatusCode = 200,
                        Devices_Result = \<lparr>Devices = [exampleDevice]\<rparr>\<rparr>,
      retrieveToken = Inr exampleToken,
      samplesGet = (\<lambda>i. Inr exampleSamples)\<rparr>"

text \<open>The token source fails whenever it is asked.\<close>

definition worldTokenFails :: World where
  "worldTokenFails =
     worldOk\<lparr>discoverToken := Inl ''oauth2: cannot fetch token'',
             retrieveToken := Inl ''oauth2: cannot fetch token''\<rparr>"

text \<open>The request for the devices fails in the transport.\<close>

definition worldGetFails :: World where
  "worldGetFails = worldOk\<lparr>devicesGet := Inl ''dial tcp: connection refused''\<rparr>"

text \<open>
  The request for the devices is answered with status 500: the HTTP client reports no
  error for a status, skips the decoding of the body, and the result registered with
  \<^verbatim>\<open>SetResult\<close> stays the empty \<^verbatim>\<open>AirthingsDevicesResult\<close>.
\<close>

definition worldStatus500 :: World where
  "worldStatus500 =
     worldOk\<lparr>devicesGet := Inr \<lparr>Devices_StatusCode = 500, Devices_Result = \<lparr>Devices = []\<rparr>\<rparr>\<rparr>"

text \<open>One minute after \<open>worldOk\<close>.\<close>

definition worldLater :: World where
  "worldLater = worldOk\<lparr>sinceNow := 5001 * Minute, deferNow := 5001 * Minute + Second\<rparr>"

text \<open>The samples of the first device cannot be fetched.\<close>

definition worldFirstSampleFails :: World where
  "worldFirstSampleFails =
     worldOk\<lparr>samplesGet := (samplesGet worldOk)(0 := Inl ''context deadline exceeded'')\<rparr>"

text \<open>An exporter whose inventory holds one and two devices, refreshed a minute ago.\<close>

definition deviceA :: Device where
  "deviceA = \<lparr>device_id = ''a'', segment = ''Cellar'', location = ''Home''\<rparr>"

definition deviceB :: Device where
  "deviceB = \<lparr>device_id = ''b'', segment = ''Attic'', location = ''Home''\<rparr>"

definition exporterOne :: Exporter where
  "exporterOne =
     \<lparr>metrics = airthingMetrics,
      deviceConfig = \<lparr>lastUpdate = 4999 * Minute, devices = [deviceA]\<rparr>\<rparr>"

definition exporterTwo :: Exporter where
  "exporterTwo =
     \<lparr>metrics = airthingMetrics,
      deviceConfig = \<lparr>lastUpdate = 4999 * Minute, devices = [deviceA, deviceB]\<rparr>\<rparr>"

text \<open>The same inventory, last refreshed more than 30 minutes ago.\<close>

definition exporterStale :: Exporter where
  "exporterStale =
     \<lparr>metrics = airthingMetrics,
      deviceConfig = \<lparr>lastUpdate = 4000 * Minute, devices = [deviceA]\<rparr>\<rparr>"

text \<open>An empty inventory whose refresh was attempted a minute ago.\<close>

definition exporterEmpty :: Exporter where
  "exporterEmpty =
     \<lparr>metrics = airthingMetrics,
      deviceConfig = \<lparr>lastUpdate = 5000 * Minute + Second, devices = []\<rparr>\<rparr>"

section \<open>Properties\<close>

subsection \<open>The staleness test\<close>

lemmas time_units = Minute_def Second_def Nanosecond_def

text \<open>Go's truncating division and remainder put a number together again.\<close>

lemma sdiv_smod_decomp: "(d::int) = (d sdiv m) * m + d smod m"
proof -
  have e: "\<bar>d\<bar> = (\<bar>d\<bar> div \<bar>m\<bar>) * \<bar>m\<bar> + \<bar>d\<bar> mod \<bar>m\<bar>" by simp
  have "(d sdiv m) * m + d smod m = sgn d * ((\<bar>d\<bar> div \<bar>m\<bar>) * (sgn m * m) + \<bar>d\<bar> mod \<bar>m\<bar>)"
    by (simp add: signed_divide_int_def signed_modulo_int_def algebra_simps)
  also have "sgn m * m = \<bar>m\<bar>" by (simp add: abs_sgn mult.commute)
  also have "sgn d * ((\<bar>d\<bar> div \<bar>m\<bar>) * \<bar>m\<bar> + \<bar>d\<bar> mod \<bar>m\<bar>) = sgn d * \<bar>d\<bar>" using e by simp
  also have "\<dots> = d" by (simp add: sgn_if)
  finally show ?thesis by simp
qed

lemma Minutes_exact: "Minutes d = real_of_int d / 60000000000"
proof -
  have "real_of_int d = real_of_int ((d sdiv Minute) * Minute + d smod Minute)"
    using sdiv_smod_decomp [of d Minute] by simp
  also have "\<dots> = real_of_int (d sdiv Minute) * 60000000000 + real_of_int (d smod Minute)"
    by (simp add: Minute_def Second_def Nanosecond_def)
  finally show ?thesis
    by (simp add: Minutes_def Let_def field_simps)
qed

lemma Minutes_gt_30: "Minutes d > 30 \<longleftrightarrow> d > 30 * Minute"
proof -
  have "Minutes d > 30 \<longleftrightarrow> real_of_int d > real_of_int 1800000000000"
    by (simp add: Minutes_exact field_simps)
  also have "\<dots> \<longleftrightarrow> d > 1800000000000"
    by (simp only: of_int_less_iff)
  finally show ?thesis
    by (simp add: Minute_def Second_def Nanosecond_def)
qed

lemma Sub_gt_30: "Sub t u > 30 * Minute \<longleftrightarrow> t - u > 30 * Minute"
  by (auto simp add: Sub_def Minute_def Second_def Nanosecond_def minDuration_def maxDuration_def)

lemma updateRequired_iff:
  "updateRequired now dc \<longleftrightarrow> lastUpdate dc = 0 \<or> now - lastUpdate dc > 30 * Minute"
  by (simp add: updateRequired_def IsZero_def Since_def Minutes_gt_30 Sub_gt_30)

lemma discoverLoop_devices:
  "fst (discoverLoop rs devs) =
     devs @ map (\<lambda>r. \<lparr>device_id = Device_Id r, segment = Segment_Name (Segment r),
                       location = Location_Name (Location r)\<rparr>) rs"
  by (induction rs arbitrary: devs) (simp_all add: Let_def case_prod_beta)

lemma refresh_TokenCall: "TokenCall \<in> set (snd (refresh w e))"
  by (simp add: refresh_def Let_def case_prod_beta split: sum.splits)

lemma refresh_lastUpdate: "lastUpdate (deviceConfig (fst (refresh w e))) = lastUpdate (deviceConfig e)"
  by (simp add: refresh_def Let_def case_prod_beta split: sum.splits)

lemma refresh_metrics: "metrics (fst (refresh w e)) = metrics e"
  by (simp add: refresh_def Let_def case_prod_beta split: sum.splits)

lemma refresh_token_error: "discoverToken w = Inl err \<Longrightarrow> fst (refresh w e) = e"
  by (simp add: refresh_def)

lemma refresh_get_error: "devicesGet w = Inl err \<Longrightarrow> fst (refresh w e) = e"
  by (simp add: refresh_def split: sum.splits)

lemma refresh_success:
  "discoverToken w = Inr token \<Longrightarrow> devicesGet w = Inr resp \<Longrightarrow>
   devices (deviceConfig (fst (refresh w e))) =
     map (\<lambda>r. \<lparr>device_id = Device_Id r, segment = Segment_Name (Segment r),
                location = Location_Name (Location r)\<rparr>) (Devices (Devices_Result resp))"
  using discoverLoop_devices [of "Devices (Devices_Result resp)" "[]"]
  by (simp add: refresh_def Let_def case_prod_beta)

lemma discover_required:
  "updateRequired (sinceNow w) (deviceConfig e) \<Longrightarrow>
   discover w e =
     ((fst (refresh w e))\<lparr>deviceConfig :=
         (deviceConfig (fst (refresh w e)))\<lparr>lastUpdate := deferNow w\<rparr>\<rparr>,
      snd (refresh w e))"
  by (simp add: discover_def case_prod_beta)

lemma discover_not_required:
  "\<not> updateRequired (sinceNow w) (deviceConfig e) \<Longrightarrow> discover w e = (e, [])"
  by (simp add: discover_def)

lemma discover_TokenCall_iff:
  "TokenCall \<in> set (snd (discover w e)) \<longleftrightarrow> updateRequired (sinceNow w) (deviceConfig e)"
  by (cases "updateRequired (sinceNow w) (deviceConfig e)")
     (simp_all add: discover_required discover_not_required refresh_TokenCall)

lemma discover_metrics: "metrics (fst (discover w e)) = metrics e"
  by (cases "updateRequired (sinceNow w) (deviceConfig e)")
     (simp_all add: discover_required discover_not_required refresh_metrics)

lemma Collect_parts:
  "fst (Collect_scrape w e) = fst (discover w e)"
  "fst (snd (Collect_scrape w e)) = fst (retrieveMetrics w (fst (discover w e)))"
  "snd (snd (snd (Collect_scrape w e))) = snd (snd (retrieveMetrics w (fst (discover w e))))"
  "fst (snd (snd (Collect_scrape w e))) = snd (discover w e) @ fst (snd (retrieveMetrics w (fst (discover w e))))"
  by (simp_all add: Collect_scrape_def case_prod_beta Let_def)

subsection \<open>The registry and the loops of retrieveMetrics\<close>

lemmas metric_names =
  Battery_def CO2_def Humidity_def Pm1_def Pm25_def Pressure_def Radon_def Temperature_def VOC_def

lemma airthingMetrics_dom: "dom airthingMetrics = registryKeys"
  by (simp add: airthingMetrics_def registryKeys_def metric_names dom_map_of_conv_image_fst insert_commute)

lemma airthingMetrics_Some:
  assumes "airthingMetrics k = Some atm"
  shows "length (variableLabels (Desc atm)) = 3 \<and> Type atm = GaugeValue"
  using assms
  by (auto simp add: airthingMetrics_def newMetric_def NewDesc_def labelNames_def split: if_splits)

lemma emitReadings_step:
  "emitReadings airthingMetrics d (r # rest) =
     (spec_records d r @ fst (emitReadings airthingMetrics d rest),
      snd (emitReadings airthingMetrics d rest))"
proof (cases r)
  case (Pair k data)
  show ?thesis
  proof (cases "airthingMetrics k")
    case None
    then have "k \<notin> registryKeys" using airthingMetrics_dom by blast
    then show ?thesis using None Pair by (cases data) simp_all
  next
    case (Some atm)
    then have k: "k \<in> registryKeys" using airthingMetrics_dom by blast
    from airthingMetrics_Some [OF Some] show ?thesis
      using Some Pair k
      by (cases data) (simp_all add: MustNewConstMetric_def case_prod_beta)
  qed
qed

lemma emitReadings_spec:
  "emitReadings airthingMetrics d rs = (concat (map (spec_records d) rs), None)"
proof (induction rs)
  case Nil
  show ?case by simp
next
  case (Cons r rs)
  show ?case by (simp only: emitReadings_step Cons) simp
qed

lemma devicesLoop_ch_Inl:
  "samplesGet w i = Inl err \<Longrightarrow>
   fst (devicesLoop w ms token i (d # ds)) = fst (devicesLoop w ms token (Suc i) ds)"
  by (simp add: case_prod_beta)

lemma devicesLoop_ch_Inr:
  "samplesGet w i = Inr resp \<Longrightarrow>
   fst (devicesLoop w airthingMetrics token i (d # ds)) =
     concat (map (spec_records d) (Data (Metrics_Result resp))) @
     fst (devicesLoop w airthingMetrics token (Suc i) ds)"
  by (simp add: case_prod_beta emitReadings_spec)

lemma devicesLoop_no_panic:
  "snd (snd (devicesLoop w airthingMetrics token i ds)) = None"
proof (induction ds arbitrary: i)
  case Nil
  show ?case by simp
next
  case (Cons d ds)
  show ?case
    by (cases "samplesGet w i") (simp_all add: case_prod_beta emitReadings_spec Cons)
qed

lemma devicesLoop_append:
  "fst (devicesLoop w airthingMetrics token i (xs @ ys)) =
     fst (devicesLoop w airthingMetrics token i xs) @
     fst (devicesLoop w airthingMetrics token (i + length xs) ys)"
proof (induction xs arbitrary: i)
  case Nil
  show ?case by simp
next
  case (Cons d xs)
  show ?case
  proof (cases "samplesGet w i")
    case (Inl err)
    show ?thesis
      using Cons [of "Suc i"] by (simp add: devicesLoop_ch_Inl [OF Inl] del: devicesLoop.simps)
  next
    case (Inr resp)
    show ?thesis
      using Cons [of "Suc i"] by (simp add: devicesLoop_ch_Inr [OF Inr] del: devicesLoop.simps)
  qed
qed

lemma devicesLoop_cong:
  "(\<And>j. i \<le> j \<Longrightarrow> j < i + length ds \<Longrightarrow> samplesGet w' j = samplesGet w j) \<Longrightarrow>
   fst (devicesLoop w' airthingMetrics token i ds) = fst (devicesLoop w airthingMetrics token i ds)"
proof (induction ds arbitrary: i)
  case Nil
  show ?case by simp
next
  case (Cons d ds)
  have here: "samplesGet w' i = samplesGet w i"
    using Cons.prems [of i] by simp
  have rest: "fst (devicesLoop w' airthingMetrics token (Suc i) ds) =
              fst (devicesLoop w airthingMetrics token (Suc i) ds)"
    using Cons.prems by (intro Cons.IH) simp_all
  show ?case
  proof (cases "samplesGet w i")
    case (Inl err)
    then show ?thesis
      using here rest by (simp add: devicesLoop_ch_Inl del: devicesLoop.simps)
  next
    case (Inr resp)
    then show ?thesis
      using here rest by (simp add: devicesLoop_ch_Inr del: devicesLoop.simps)
  qed
qed

lemma retrieveMetrics_ch:
  "retrieveToken w = Inr token \<Longrightarrow>
   fst (retrieveMetrics w e) = fst (devicesLoop w (metrics e) token 0 (devices (deviceConfig e)))"
  by (simp add: retrieveMetrics_def case_prod_beta)

lemma retrieveMetrics_no_panic:
  "metrics e = airthingMetrics \<Longrightarrow> snd (snd (retrieveMetrics w e)) = None"
  using devicesLoop_no_panic [of w _ 0 "devices (deviceConfig e)"]
  by (simp add: retrieveMetrics_def case_prod_beta split: sum.splits)

lemma retrieveMetrics_no_devices:
  "devices (deviceConfig e) = [] \<Longrightarrow>
   fst (retrieveMetrics w e) = [] \<and> snd (snd (retrieveMetrics w e)) = None"
  by (simp add: retrieveMetrics_def split: sum.splits)

lemma discover_lastUpdate:
  "lastUpdate (deviceConfig (fst (discover w e))) =
     (if updateRequired (sinceNow w) (deviceConfig e) then deferNow w
      else lastUpdate (deviceConfig e))"
  by (simp add: discover_required discover_not_required)

lemma discover_failed_devices:
  "discoverToken w = Inl err1 \<or> devicesGet w = Inl err2 \<Longrightarrow>
   devices (deviceConfig (fst (discover w e))) = devices (deviceConfig e)"
  by (cases "updateRequired (sinceNow w) (deviceConfig e)")
     (auto simp add: discover_required discover_not_required refresh_token_error refresh_get_error)

lemma co2_registered:
  "airthingMetrics ''co2'' = Some (newMetric ''co2'' ''CO2 levels'' GaugeValue [])"
  by (simp add: airthingMetrics_def metric_names)

subsection \<open>The refresh of the inventory\<close>

text \<open>
  Claim C1. In every scrape that attempts a refresh (the staleness test holds on entry),
  \<^verbatim>\<open>lastUpdate\<close> is the clock reading of the deferred function when \<^verbatim>\<open>discover\<close>
  returns, whatever the token source and the request for the devices answered; and
  \<^verbatim>\<open>Collect\<close> emits its metrics on the exporter that \<^verbatim>\<open>discover\<close> has left.
\<close>

theorem C1_attempt_sets_lastUpdate:
  assumes "updateRequired (sinceNow w) (deviceConfig e)"
  shows "lastUpdate (deviceConfig (fst (discover w e))) = deferNow w \<and>
         fst (Collect_scrape w e) = fst (discover w e) \<and>
         fst (snd (Collect_scrape w e)) = fst (retrieveMetrics w (fst (discover w e)))"
  using assms by (simp add: discover_lastUpdate Collect_parts)

text \<open>C1 at a stale inventory whose request for the devices fails.\<close>

theorem C1_attempt_sets_lastUpdate_witness:
  "updateRequired (sinceNow worldGetFails) (deviceConfig exporterStale) \<and>
   lastUpdate (deviceConfig (fst (discover worldGetFails exporterStale))) = 5000 * Minute + Second"
proof -
  have h: "updateRequired (sinceNow worldGetFails) (deviceConfig exporterStale)"
    by (simp add: updateRequired_iff worldGetFails_def worldOk_def exporterStale_def time_units)
  show ?thesis
    using h C1_attempt_sets_lastUpdate [OF h]
    by (simp add: worldGetFails_def worldOk_def)
qed

text \<open>
  Claim C2. When the refresh fails, because the token source or the request for the
  devices returns an error, the cached list of devices after \<^verbatim>\<open>discover\<close> (and after the
  whole scrape) is the list before it: the same devices in the same order, hence the same
  count, ids, segments and locations.
\<close>

theorem C2_failed_refresh_keeps_devices:
  assumes "discoverToken w = Inl err1 \<or> devicesGet w = Inl err2"
  shows "devices (deviceConfig (fst (discover w e))) = devices (deviceConfig e) \<and>
         devices (deviceConfig (fst (Collect_scrape w e))) = devices (deviceConfig e)"
  using discover_failed_devices [OF assms] by (simp add: Collect_parts)

text \<open>C2 at a stale inventory of one device whose request for the devices fails.\<close>

theorem C2_failed_refresh_keeps_devices_witness:
  "devicesGet worldGetFails = Inl ''dial tcp: connection refused'' \<and>
   updateRequired (sinceNow worldGetFails) (deviceConfig exporterStale) \<and>
   devices (deviceConfig (fst (discover worldGetFails exporterStale))) = [deviceA]"
proof -
  have h: "devicesGet worldGetFails = Inl ''dial tcp: connection refused''"
    by (simp add: worldGetFails_def)
  have r: "updateRequired (sinceNow worldGetFails) (deviceConfig exporterStale)"
    by (simp add: updateRequired_iff worldGetFails_def worldOk_def exporterStale_def time_units)
  have "discoverToken worldGetFails = Inl [] \<or>
        devicesGet worldGetFails = Inl ''dial tcp: connection refused''"
    using h by simp
  from C2_failed_refresh_keeps_devices [OF this, of exporterStale] h r show ?thesis
    by (simp add: exporterStale_def)
qed

text \<open>
  Claim C3 asks that an answer with a status outside 2xx counts as a failed refresh and
  keeps the previous devices. \<^verbatim>\<open>discover\<close> tests \<^verbatim>\<open>err != nil\<close> only and never reads the
  status. At the answer with status 500, which the HTTP client hands over without an
  error and with an empty result, the stale inventory of one device is replaced by the
  empty list, and nothing is logged as an error.
\<close>

theorem C3_status_500_empties_inventory:
  "devicesGet worldStatus500 =
     Inr \<lparr>Devices_StatusCode = 500, Devices_Result = \<lparr>Devices = []\<rparr>\<rparr> \<and>
   devices (deviceConfig exporterStale) = [deviceA] \<and>
   devices (deviceConfig (fst (discover worldStatus500 exporterStale))) = [] \<and>
   snd (discover worldStatus500 exporterStale) = [TokenCall, Get ''token-1'' devicesURL []]"
proof -
  have h: "updateRequired (sinceNow worldStatus500) (deviceConfig exporterStale)"
    by (simp add: updateRequired_iff worldStatus500_def worldOk_def exporterStale_def time_units)
  show ?thesis
    by (simp add: discover_required [OF h])
       (simp add: refresh_def worldStatus500_def worldOk_def exporterStale_def exampleToken_def)
qed

text \<open>
  Claim C4 says that a failed refresh leaves \<^verbatim>\<open>lastUpdate\<close> untouched, so that it stays
  zero until the first success. It does not: on the first scrape of a new exporter the
  token source fails, and \<^verbatim>\<open>lastUpdate\<close> is no longer zero afterwards.
\<close>

theorem C4_failed_refresh_moves_lastUpdate:
  "lastUpdate (deviceConfig newExporter) = 0 \<and>
   discoverToken worldTokenFails = Inl ''oauth2: cannot fetch token'' \<and>
   lastUpdate (deviceConfig (fst (discover worldTokenFails newExporter))) =
     5000 * Minute + Second \<and>
   lastUpdate (deviceConfig (fst (discover worldTokenFails newExporter))) \<noteq>
     lastUpdate (deviceConfig newExporter)"
proof -
  have h: "updateRequired (sinceNow worldTokenFails) (deviceConfig newExporter)"
    by (simp add: updateRequired_iff newExporter_def)
  show ?thesis
    by (simp add: discover_lastUpdate h)
       (simp add: worldTokenFails_def worldOk_def newExporter_def time_units)
qed

text \<open>
  Claim C4, amended. \<^verbatim>\<open>lastUpdate\<close> after \<^verbatim>\<open>discover\<close> depends on the staleness test
  alone, not on the outcome of the refresh: it is the clock reading of the attempt when
  \<^verbatim>\<open>lastUpdate\<close> was zero or more than 30 minutes old, and it is untouched otherwise. So
  it stays zero until the first attempt, which the first scrape makes, and a failed
  attempt sets it like a successful one.
\<close>

theorem C4_lastUpdate_after_discover:
  "lastUpdate (deviceConfig (fst (discover w e))) =
     (if IsZero (lastUpdate (deviceConfig e)) \<or>
         30 * Minute < sinceNow w - lastUpdate (deviceConfig e)
      then deferNow w
      else lastUpdate (deviceConfig e))"
  by (simp add: discover_lastUpdate updateRequired_iff IsZero_def)

text \<open>C4 amended, at a failed first attempt and at a fresh inventory.\<close>

theorem C4_lastUpdate_after_discover_witness:
  "lastUpdate (deviceConfig (fst (discover worldTokenFails newExporter))) =
     5000 * Minute + Second \<and>
   lastUpdate (deviceConfig (fst (discover worldLater exporterOne))) = 4999 * Minute"
  using C4_lastUpdate_after_discover [of worldTokenFails newExporter]
        C4_lastUpdate_after_discover [of worldLater exporterOne]
  by (simp add: worldTokenFails_def worldLater_def worldOk_def newExporter_def exporterOne_def
        IsZero_def time_units)

text \<open>
  Claim C5. \<^verbatim>\<open>discover\<close> attempts a refresh (it asks the token source, the first step of
  the attempt) if and only if \<^verbatim>\<open>lastUpdate\<close> is zero or the time since \<^verbatim>\<open>lastUpdate\<close> is
  strictly more than 30 minutes.
\<close>

theorem C5_refresh_attempt_iff:
  "TokenCall \<in> set (snd (discover w e)) \<longleftrightarrow>
     IsZero (lastUpdate (deviceConfig e)) \<or>
     30 * Minute < sinceNow w - lastUpdate (deviceConfig e)"
  by (simp add: discover_TokenCall_iff updateRequired_iff IsZero_def)

text \<open>C5 at a stale, a fresh and a new inventory.\<close>

theorem C5_refresh_attempt_iff_witness:
  "TokenCall \<in> set (snd (discover worldOk exporterStale)) \<and>
   TokenCall \<notin> set (snd (discover worldOk exporterOne)) \<and>
   TokenCall \<in> set (snd (discover worldOk newExporter))"
  using C5_refresh_attempt_iff [of worldOk exporterStale]
        C5_refresh_attempt_iff [of worldOk exporterOne]
        C5_refresh_attempt_iff [of worldOk newExporter]
  by (simp add: worldOk_def exporterStale_def exporterOne_def newExporter_def IsZero_def
        time_units)

subsection \<open>The emission of metrics\<close>

text \<open>
  Claim C6. When the request for the samples of a cached device \<open>d\<close> succeeds, the
  metrics sent for \<open>d\<close> are exactly the records that the specification asks for, one for
  each reading whose key is one of the nine registered kinds and whose value is a number,
  with that value and the labels device id, segment, location in this order, and none for
  any other reading; they stand in the scrape's output between the metrics of the devices
  before \<open>d\<close> and those of the devices after it, and nothing panics.
\<close>

theorem C6_emitted_records_of_device:
  assumes "metrics e = airthingMetrics"
    and "retrieveToken w = Inr token"
    and "devices (deviceConfig e) = pre @ d # post"
    and "samplesGet w (length pre) = Inr resp"
  shows "emitReadings airthingMetrics d (Data (Metrics_Result resp)) =
           (concat (map (spec_records d) (Data (Metrics_Result resp))), None) \<and>
         fst (retrieveMetrics w e) =
           fst (devicesLoop w airthingMetrics token 0 pre) @
           concat (map (spec_records d) (Data (Metrics_Result resp))) @
           fst (devicesLoop w airthingMetrics token (Suc (length pre)) post) \<and>
         snd (snd (retrieveMetrics w e)) = None"
proof -
  have "fst (retrieveMetrics w e) =
          fst (devicesLoop w airthingMetrics token 0 (pre @ d # post))"
    using assms(1,2,3) by (simp add: retrieveMetrics_ch)
  also have "\<dots> = fst (devicesLoop w airthingMetrics token 0 pre) @
                   fst (devicesLoop w airthingMetrics token (length pre) (d # post))"
    by (simp add: devicesLoop_append del: devicesLoop.simps)
  also have "fst (devicesLoop w airthingMetrics token (length pre) (d # post)) =
               concat (map (spec_records d) (Data (Metrics_Result resp))) @
               fst (devicesLoop w airthingMetrics token (Suc (length pre)) post)"
    by (rule devicesLoop_ch_Inr [OF assms(4)])
  finally show ?thesis
    by (simp add: emitReadings_spec retrieveMetrics_no_panic [OF assms(1)])
qed

text \<open>
  C6 at an inventory of one device whose samples are a CO2 reading of 450 and the string
  field \<^verbatim>\<open>relayDeviceType\<close>: one record, for CO2.
\<close>

theorem C6_emitted_records_of_device_witness:
  "metrics exporterOne = airthingMetrics \<and>
   retrieveToken worldOk = Inr exampleToken \<and>
   devices (deviceConfig exporterOne) = [] @ deviceA # [] \<and>
   samplesGet worldOk (length ([] :: Device list)) = Inr exampleSamples \<and>
   fst (retrieveMetrics worldOk exporterOne) =
     [\<lparr>desc = \<lparr>fqName = ''airthings_cloud_co2'', helpText = ''CO2 levels'',
                variableLabels = [''device'', ''segment'', ''location''], constLabels = []\<rparr>,
       valType = GaugeValue, val = 450, labelValues = [''a'', ''Cellar'', ''Home'']\<rparr>]"
proof -
  have 1: "metrics exporterOne = airthingMetrics"
    by (simp add: exporterOne_def)
  have 2: "retrieveToken worldOk = Inr exampleToken"
    by (simp add: worldOk_def)
  have 3: "devices (deviceConfig exporterOne) = [] @ deviceA # []"
    by (simp add: exporterOne_def)
  have 4: "samplesGet worldOk (length ([] :: Device list)) = Inr exampleSamples"
    by (simp add: worldOk_def)
  have "fst (retrieveMetrics worldOk exporterOne) =
          concat (map (spec_records deviceA) (Data (Metrics_Result exampleSamples)))"
    using C6_emitted_records_of_device [OF 1 2 3 4] by simp
  then show ?thesis
    using 1 2 3 4
    by (simp add: exampleSamples_def registryKeys_def co2_registered newMetric_def NewDesc_def
          BuildFQName_def namespace_def labelNames_def deviceA_def)
qed

text \<open>
  Claim C7. When the request for the samples of a cached device \<open>x\<close> fails, the scrape
  sends the metrics of the devices before \<open>x\<close> followed by those of the devices after
  \<open>x\<close>, and none for \<open>x\<close>; had the request been answered (by any \<open>resp\<close>), the scrape
  would have sent the same metrics for the other devices, with those of \<open>x\<close> in between.
\<close>

theorem C7_failed_device_is_isolated:
  assumes "metrics e = airthingMetrics"
    and "retrieveToken w = Inr token"
    and "devices (deviceConfig e) = pre @ x # post"
    and "samplesGet w (length pre) = Inl err"
  shows "fst (retrieveMetrics w e) =
           fst (devicesLoop w airthingMetrics token 0 pre) @
           fst (devicesLoop w airthingMetrics token (Suc (length pre)) post) \<and>
         fst (retrieveMetrics (w\<lparr>samplesGet := (samplesGet w)(length pre := Inr resp)\<rparr>) e) =
           fst (devicesLoop w airthingMetrics token 0 pre) @
           fst (emitReadings airthingMetrics x (Data (Metrics_Result resp))) @
           fst (devicesLoop w airthingMetrics token (Suc (length pre)) post)"
proof -
  define w' where "w' = w\<lparr>samplesGet := (samplesGet w)(length pre := Inr resp)\<rparr>"
  have split: "fst (devicesLoop v airthingMetrics token 0 (pre @ x # post)) =
      fst (devicesLoop v airthingMetrics token 0 pre) @
      fst (devicesLoop v airthingMetrics token (length pre) (x # post))" for v
    by (simp add: devicesLoop_append del: devicesLoop.simps)
  have failing: "fst (retrieveMetrics w e) =
      fst (devicesLoop w airthingMetrics token 0 pre) @
      fst (devicesLoop w airthingMetrics token (Suc (length pre)) post)"
    using assms(1,2,3) split [of w] devicesLoop_ch_Inl [OF assms(4)]
    by (simp add: retrieveMetrics_ch del: devicesLoop.simps)
  have tok': "retrieveToken w' = Inr token"
    using assms(2) by (simp add: w'_def)
  have here: "samplesGet w' (length pre) = Inr resp"
    by (simp add: w'_def)
  have before: "fst (devicesLoop w' airthingMetrics token 0 pre) =
                fst (devicesLoop w airthingMetrics token 0 pre)"
    by (rule devicesLoop_cong) (simp add: w'_def)
  have after: "fst (devicesLoop w' airthingMetrics token (Suc (length pre)) post) =
               fst (devicesLoop w airthingMetrics token (Suc (length pre)) post)"
    by (rule devicesLoop_cong) (simp add: w'_def)
  have "fst (retrieveMetrics w' e) =
      fst (devicesLoop w' airthingMetrics token 0 pre) @
      fst (devicesLoop w' airthingMetrics token (length pre) (x # post))"
    using assms(1,3) split [of w'] by (simp add: retrieveMetrics_ch [OF tok'] del: devicesLoop.simps)
  also have "fst (devicesLoop w' airthingMetrics token (length pre) (x # post)) =
      concat (map (spec_records x) (Data (Metrics_Result resp))) @
      fst (devicesLoop w' airthingMetrics token (Suc (length pre)) post)"
    by (rule devicesLoop_ch_Inr [OF here])
  finally have answering: "fst (retrieveMetrics w' e) =
      fst (devicesLoop w airthingMetrics token 0 pre) @
      fst (emitReadings airthingMetrics x (Data (Metrics_Result resp))) @
      fst (devicesLoop w airthingMetrics token (Suc (length pre)) post)"
    by (simp add: before after emitReadings_spec del: devicesLoop.simps)
  from failing answering show ?thesis
    unfolding w'_def ..
qed

text \<open>C7 at two cached devices, the first of which cannot be fetched.\<close>

theorem C7_failed_device_is_isolated_witness:
  "samplesGet worldFirstSampleFails 0 = Inl ''context deadline exceeded'' \<and>
   devices (deviceConfig exporterTwo) = [deviceA, deviceB] \<and>
   fst (retrieveMetrics worldFirstSampleFails exporterTwo) =
     [\<lparr>desc = \<lparr>fqName = ''airthings_cloud_co2'', helpText = ''CO2 levels'',
                variableLabels = [''device'', ''segment'', ''location''], constLabels = []\<rparr>,
       valType = GaugeValue, val = 450, labelValues = [''b'', ''Attic'', ''Home'']\<rparr>]"
proof -
  have 1: "metrics exporterTwo = airthingMetrics"
    by (simp add: exporterTwo_def)
  have 2: "retrieveToken worldFirstSampleFails = Inr exampleToken"
    by (simp add: worldFirstSampleFails_def worldOk_def)
  have 3: "devices (deviceConfig exporterTwo) = [] @ deviceA # [deviceB]"
    by (simp add: exporterTwo_def)
  have 4: "samplesGet worldFirstSampleFails (length ([] :: Device list)) =
             Inl ''context deadline exceeded''"
    by (simp add: worldFirstSampleFails_def)
  have 5: "samplesGet worldFirstSampleFails (Suc 0) = Inr exampleSamples"
    by (simp add: worldFirstSampleFails_def worldOk_def)
  have "fst (retrieveMetrics worldFirstSampleFails exporterTwo) =
          fst (devicesLoop worldFirstSampleFails airthingMetrics exampleToken (Suc 0) [deviceB])"
    using C7_failed_device_is_isolated [OF 1 2 3 4] by (simp del: devicesLoop.simps(2))
  also have "\<dots> = concat (map (spec_records deviceB) (Data (Metrics_Result exampleSamples)))"
    by (simp add: devicesLoop_ch_Inr [OF 5] del: devicesLoop.simps(2))
  finally show ?thesis
    using 3 4
    by (simp add: exampleSamples_def registryKeys_def co2_registered newMetric_def NewDesc_def
          BuildFQName_def namespace_def labelNames_def deviceB_def)
qed

text \<open>
  Claim C8. When the token source fails in a scrape that starts with no cached inventory
  (no devices, \<^verbatim>\<open>lastUpdate\<close> zero), the scrape sends no metric, does not panic, leaves the
  list of devices empty and logs the error, whatever the token source answers to
  \<^verbatim>\<open>retrieveMetrics\<close>.
\<close>

theorem C8_token_failure_on_empty_inventory:
  assumes "devices (deviceConfig e) = []"
    and "IsZero (lastUpdate (deviceConfig e))"
    and "discoverToken w = Inl err"
  shows "fst (snd (Collect_scrape w e)) = [] \<and>
         snd (snd (snd (Collect_scrape w e))) = None \<and>
         devices (deviceConfig (fst (Collect_scrape w e))) = [] \<and>
         Log level_Error
           [(''msg'', ''failed to get access token, will try again later''), (''err'', err)]
           \<in> set (fst (snd (snd (Collect_scrape w e))))"
proof -
  have req: "updateRequired (sinceNow w) (deviceConfig e)"
    using assms(2) by (simp add: updateRequired_def)
  have kept: "devices (deviceConfig (fst (discover w e))) = []"
    using discover_failed_devices [of w err _ e] assms(1,3) by simp
  have logged: "Log level_Error
      [(''msg'', ''failed to get access token, will try again later''), (''err'', err)]
      \<in> set (snd (discover w e))"
    using assms(3) by (simp add: discover_required [OF req] refresh_def)
  show ?thesis
    using kept logged retrieveMetrics_no_devices [OF kept, of w]
    by (simp add: Collect_parts)
qed

text \<open>C8 at the new exporter.\<close>

theorem C8_token_failure_on_empty_inventory_witness:
  "devices (deviceConfig newExporter) = [] \<and>
   IsZero (lastUpdate (deviceConfig newExporter)) \<and>
   discoverToken worldTokenFails = Inl ''oauth2: cannot fetch token'' \<and>
   fst (snd (Collect_scrape worldTokenFails newExporter)) = [] \<and>
   snd (snd (snd (Collect_scrape worldTokenFails newExporter))) = None \<and>
   devices (deviceConfig (fst (Collect_scrape worldTokenFails newExporter))) = []"
proof -
  have 1: "devices (deviceConfig newExporter) = []"
    by (simp add: newExporter_def)
  have 2: "IsZero (lastUpdate (deviceConfig newExporter))"
    by (simp add: newExporter_def IsZero_def)
  have 3: "discoverToken worldTokenFails = Inl ''oauth2: cannot fetch token''"
    by (simp add: worldTokenFails_def)
  show ?thesis
    using C8_token_failure_on_empty_inventory [OF 1 2 3] 1 2 3 by simp
qed

text \<open>
  Claim C9 says that a scrape starting with an empty list of devices always attempts a
  refresh. It does not: after a first scrape whose refresh failed, the list is empty, and
  the scrape a minute later attempts nothing.
\<close>

theorem C9_empty_inventory_not_refreshed:
  "devices (deviceConfig (fst (Collect_scrape worldTokenFails newExporter))) = [] \<and>
   TokenCall \<notin> set (snd (discover worldLater (fst (Collect_scrape worldTokenFails newExporter))))"
proof -
  have req: "updateRequired (sinceNow worldTokenFails) (deviceConfig newExporter)"
    by (simp add: updateRequired_iff newExporter_def)
  have dev: "devices (deviceConfig (fst (discover worldTokenFails newExporter))) = []"
    using discover_failed_devices [of worldTokenFails "''oauth2: cannot fetch token''" _ newExporter]
    by (simp add: worldTokenFails_def newExporter_def)
  have upd: "lastUpdate (deviceConfig (fst (discover worldTokenFails newExporter))) =
             5000 * Minute + Second"
    by (simp add: discover_lastUpdate req) (simp add: worldTokenFails_def worldOk_def)
  have "\<not> updateRequired (sinceNow worldLater)
            (deviceConfig (fst (discover worldTokenFails newExporter)))"
    by (simp add: updateRequired_iff upd) (simp add: worldLater_def worldOk_def time_units)
  then show ?thesis
    using dev by (simp add: Collect_parts discover_TokenCall_iff)
qed

text \<open>
  Claim C9, amended. A scrape that starts with an empty list of devices attempts a refresh
  if and only if \<^verbatim>\<open>lastUpdate\<close> is zero or more than 30 minutes old; otherwise it leaves
  the exporter as it is and sends no metric.
\<close>

theorem C9_empty_inventory_refresh_iff:
  assumes "devices (deviceConfig e) = []"
  shows "(TokenCall \<in> set (snd (discover w e)) \<longleftrightarrow>
            IsZero (lastUpdate (deviceConfig e)) \<or>
            30 * Minute < sinceNow w - lastUpdate (deviceConfig e)) \<and>
         (\<not> (IsZero (lastUpdate (deviceConfig e)) \<or>
              30 * Minute < sinceNow w - lastUpdate (deviceConfig e)) \<longrightarrow>
            fst (Collect_scrape w e) = e \<and> fst (snd (Collect_scrape w e)) = [])"
proof -
  have a: "TokenCall \<in> set (snd (discover w e)) \<longleftrightarrow>
            IsZero (lastUpdate (deviceConfig e)) \<or>
            30 * Minute < sinceNow w - lastUpdate (deviceConfig e)"
    by (simp add: discover_TokenCall_iff updateRequired_iff IsZero_def)
  have b: "fst (Collect_scrape w e) = e \<and> fst (snd (Collect_scrape w e)) = []"
    if "\<not> (IsZero (lastUpdate (deviceConfig e)) \<or>
            30 * Minute < sinceNow w - lastUpdate (deviceConfig e))"
  proof -
    from that have "\<not> updateRequired (sinceNow w) (deviceConfig e)"
      by (simp add: updateRequired_iff IsZero_def)
    then have "discover w e = (e, [])"
      by (rule discover_not_required)
    then show ?thesis
      using retrieveMetrics_no_devices [OF assms, of w] by (simp add: Collect_parts)
  qed
  from a b show ?thesis by blast
qed

text \<open>C9 amended, at an empty inventory whose refresh was attempted a minute ago.\<close>

theorem C9_empty_inventory_refresh_iff_witness:
  "devices (deviceConfig exporterEmpty) = [] \<and>
   \<not> (IsZero (lastUpdate (deviceConfig exporterEmpty)) \<or>
      30 * Minute < sinceNow worldLater - lastUpdate (deviceConfig exporterEmpty)) \<and>
   TokenCall \<notin> set (snd (discover worldLater exporterEmpty)) \<and>
   fst (Collect_scrape worldLater exporterEmpty) = exporterEmpty \<and>
   fst (snd (Collect_scrape worldLater exporterEmpty)) = []"
proof -
  have 1: "devices (deviceConfig exporterEmpty) = []"
    by (simp add: exporterEmpty_def)
  have 2: "\<not> (IsZero (lastUpdate (deviceConfig exporterEmpty)) \<or>
      30 * Minute < sinceNow worldLater - lastUpdate (deviceConfig exporterEmpty))"
    by (simp add: exporterEmpty_def worldLater_def worldOk_def IsZero_def time_units)
  show ?thesis
    using C9_empty_inventory_refresh_iff [OF 1, of worldLater] 1 2 by simp
qed

end
